theory Spec2Isabelle
  imports Complex_Main
begin

section \<open>javascript/progressbar.js\<close>

text \<open>
  JavaScript numbers are modelled as exact reals (no rounding, no NaN); timestamps are
  integer milliseconds. Console logging and CSS styling (opacity, transitions) are not
  part of the model. DOM elements are modelled by the attributes the code reads or writes.
\<close>

subsection \<open>Rendering numbers as text\<close>

text \<open>Decimal digits of a natural number, as string concatenation with a number gives.\<close>

fun digits :: "nat \<Rightarrow> string" where
  "digits n = (if n < 10 then [''0123456789'' ! n]
               else digits (n div 10) @ [''0123456789'' ! (n mod 10)])"

declare digits.simps [simp del]

definition num_str :: "int \<Rightarrow> string" where
  "num_str i = (if i < 0 then CHR ''-'' # digits (nat (- i)) else digits (nat i))"

text \<open>\<^verbatim>\<open>a % b\<close>: the remainder takes the sign of the dividend (\<open>b\<close> is never 0 here).\<close>

definition js_rem :: "int \<Rightarrow> int \<Rightarrow> int" where
  "js_rem a b = (if a < 0 then - ((- a) mod \<bar>b\<bar>) else a mod \<bar>b\<bar>)"

text \<open>\<^verbatim>\<open>x.toFixed(0)\<close>: the nearest integer, the larger one of two equally near.\<close>

definition toFixed0 :: "real \<Rightarrow> string" where
  "toFixed0 x = (if x < 0 then CHR ''-'' # digits (nat \<lfloor>- x + 1 / 2\<rfloor>)
                 else digits (nat \<lfloor>x + 1 / 2\<rfloor>))"

definition is_space :: "char \<Rightarrow> bool" where
  "is_space c = (c = CHR '' '' \<or> c = CHR 0x09 \<or> c = CHR 0x0A \<or> c = CHR 0x0B
                 \<or> c = CHR 0x0C \<or> c = CHR 0x0D)"

definition trim :: "string \<Rightarrow> string" where
  "trim s = rev (dropWhile is_space (rev (dropWhile is_space s)))"

subsection \<open>pad2, formatTime, getSmartRefreshRate\<close>

text \<open>\<^verbatim>\<open>pad2\<close> is only called on the integers that \<^verbatim>\<open>Math.floor\<close> and \<^verbatim>\<open>%\<close> return.\<close>

definition pad2 :: "int \<Rightarrow> string" where
  "pad2 x = (if x < 10 then CHR ''0'' # num_str x else num_str x)"

definition formatTime :: "real \<Rightarrow> string" where
  "formatTime secs =
     (if secs > 3600 then
        pad2 \<lfloor>secs / 60 / 60\<rfloor> @ '':'' @ pad2 (js_rem \<lfloor>secs / 60\<rfloor> 60) @ '':''
          @ pad2 (js_rem \<lfloor>secs\<rfloor> 60)
      else if secs > 60 then
        pad2 \<lfloor>secs / 60\<rfloor> @ '':'' @ pad2 (js_rem \<lfloor>secs\<rfloor> 60)
      else num_str \<lfloor>secs\<rfloor> @ ''s'')"

definition getSmartRefreshRate :: "real \<Rightarrow> bool \<Rightarrow> nat" where
  "getSmartRefreshRate progress isActive =
     (if \<not> isActive \<or> progress < 0.05 then 1000
      else if progress < 0.2 then 800
      else if progress < 0.7 then 400
      else if progress < 0.95 then 250
      else 200)"

subsection \<open>The poll session of requestProgress\<close>

text \<open>The JSON object a status request answers with; \<open>None\<close> is an absent or null field.\<close>

record response =
  res_completed :: bool
  res_active :: bool
  res_queued :: bool
  res_progress :: "real option"
  res_eta :: "real option"
  res_textinfo :: "string option"
  res_live_preview :: "string option"

text \<open>What \<^verbatim>\<open>request\<close> hands over: the parsed answer to \<^verbatim>\<open>handler\<close>, or a call of
  \<^verbatim>\<open>errorHandler\<close> (a status other than 200, or a body that does not parse).\<close>

datatype xhr_result = Ok response | Failed

record opts =
  show_progress_in_title :: bool
  prevent_screen_sleep_during_generation :: bool

text \<open>
  The variables that the closures of \<^verbatim>\<open>requestProgress\<close> share, and the parts of the page
  they touch. \<open>divProgress\<close> is \<open>False\<close> once the variable is \<^verbatim>\<open>null\<close>; \<open>livePreview\<close>
  holds the preview container's children (image nodes by identity), oldest first.
\<close>

record session =
  dateStart :: int
  inactivityTimeout :: real
  wasEverActive :: bool
  wakeLock :: bool
  divProgress :: bool
  livePreview :: "nat list option"
  gallery :: bool
  has_onProgress :: bool
  session_opts :: opts
  wakeLock_supported :: bool
  bar_in_document :: bool
  preview_in_gallery :: bool
  document_title :: string
  originalAppTitle :: string
  divInner_width :: real
  divInner_transparent :: bool
  divInner_text :: string
  atEnd_calls :: nat
  onProgress_calls :: nat

datatype reason = Completed | DroppedFromActive | TimedOut | TransportError

text \<open>How a response handler ends: \<open>Rescheduled d\<close> is the \<^verbatim>\<open>setTimeout\<close> of the loop's next
  cycle after \<open>d\<close> milliseconds; \<open>Ignored\<close> is a return that does nothing.\<close>

datatype outcome = Terminated reason | Rescheduled nat | Ignored

definition setTitle :: "string \<Rightarrow> session \<Rightarrow> session" where
  "setTitle progress s =
     (let title = (if show_progress_in_title (session_opts s) \<and> progress \<noteq> []
                   then ''['' @ trim progress @ ''] '' @ originalAppTitle s
                   else originalAppTitle s)
      in if document_title s \<noteq> title then s\<lparr>document_title := title\<rparr> else s)"

definition requestWakeLock :: "session \<Rightarrow> session" where
  "requestWakeLock s =
     (if \<not> prevent_screen_sleep_during_generation (session_opts s) \<or> wakeLock s then s
      else if wakeLock_supported s then s\<lparr>wakeLock := True\<rparr> else s)"

definition releaseWakeLock :: "session \<Rightarrow> session" where
  "releaseWakeLock s =
     (if \<not> prevent_screen_sleep_during_generation (session_opts s) \<or> \<not> wakeLock s then s
      else s\<lparr>wakeLock := False\<rparr>)"

definition removeProgressBar :: "session \<Rightarrow> session" where
  "removeProgressBar s =
     (let s1 = releaseWakeLock s in
      if \<not> divProgress s1 then s1
      else (setTitle [] s1)
             \<lparr>bar_in_document := False,
              preview_in_gallery :=
                (if gallery s1 \<and> livePreview s1 \<noteq> None then False else preview_in_gallery s1),
              atEnd_calls := Suc (atEnd_calls s1),
              divProgress := False\<rparr>)"

text \<open>\<^verbatim>\<open>res.progress || 0\<close>, and the truth value of an optional number or string.\<close>

definition or0 :: "real option \<Rightarrow> real" where
  "or0 x = (case x of None \<Rightarrow> 0 | Some v \<Rightarrow> v)"

definition truthy_num :: "real option \<Rightarrow> bool" where
  "truthy_num x = (case x of None \<Rightarrow> False | Some v \<Rightarrow> v \<noteq> 0)"

definition truthy_str :: "string option \<Rightarrow> bool" where
  "truthy_str x = (case x of None \<Rightarrow> False | Some v \<Rightarrow> v \<noteq> [])"

text \<open>The text of the bar and of the title, as the handler of \<^verbatim>\<open>funProgress\<close> builds them.
  The percentage is the exact product rounded; the code rounds the product of two doubles,
  which can be one less where the exact product ends in .5 (progress 0.145 reads 14%).\<close>

definition titleText :: "response \<Rightarrow> string" where
  "titleText res =
     (if or0 (res_progress res) > 0 then toFixed0 (or0 (res_progress res) * 100) @ ''%'' else [])
     @ (case res_eta res of
          None \<Rightarrow> []
        | Some e \<Rightarrow> if e \<noteq> 0 then '' ETA: '' @ formatTime e else [])"

definition barText :: "response \<Rightarrow> string" where
  "barText res =
     (case res_textinfo res of
        None \<Rightarrow> titleText res
      | Some t \<Rightarrow> if t \<noteq> [] \<and> CHR 0x0A \<notin> set t then t @ '' '' @ titleText res
                  else titleText res)"

text \<open>The success handler of \<^verbatim>\<open>funProgress\<close>, run at time \<open>now\<close> (milliseconds).\<close>

definition funProgress_handler :: "session \<Rightarrow> int \<Rightarrow> response \<Rightarrow> outcome \<times> session" where
  "funProgress_handler s now res =
     (if res_completed res then (Terminated Completed, removeProgressBar s)
      else
        let s1 = s\<lparr>divInner_width := or0 (res_progress res) * 100,
                   divInner_transparent := \<not> truthy_num (res_progress res)\<rparr>;
            s2 = (setTitle (titleText res) s1)\<lparr>divInner_text := barText res\<rparr>;
            elapsedFromStart = real_of_int (now - dateStart s2) / 1000;
            s3 = (if res_active res then s2\<lparr>wasEverActive := True\<rparr> else s2)
        in if \<not> res_active res \<and> wasEverActive s3 then
             (Terminated DroppedFromActive, removeProgressBar s3)
           else if elapsedFromStart > inactivityTimeout s3 \<and> \<not> res_queued res
                   \<and> \<not> res_active res then
             (Terminated TimedOut, removeProgressBar s3)
           else
             (Rescheduled (getSmartRefreshRate (or0 (res_progress res)) (res_active res)),
              if has_onProgress s3 then s3\<lparr>onProgress_calls := Suc (onProgress_calls s3)\<rparr>
              else s3))"

text \<open>\<^verbatim>\<open>funProgress\<close> itself: the wake lock is requested and the request goes out; then the
  request comes back, to the handler or to the error handler.\<close>

definition funProgress :: "session \<Rightarrow> session" where
  "funProgress s = requestWakeLock s"

definition funProgress_done :: "session \<Rightarrow> int \<Rightarrow> xhr_result \<Rightarrow> outcome \<times> session" where
  "funProgress_done s now r =
     (case r of
        Ok res \<Rightarrow> funProgress_handler s now res
      | Failed \<Rightarrow> (Terminated TransportError, removeProgressBar s))"

text \<open>The success handler of \<^verbatim>\<open>funLivePreview\<close>: it changes no variable; the second component
  is the address of the image whose load it starts, if any.\<close>

definition funLivePreview_handler :: "session \<Rightarrow> response \<Rightarrow> outcome \<times> string option" where
  "funLivePreview_handler s res =
     (if \<not> divProgress s then (Ignored, None)
      else
        (Rescheduled (getSmartRefreshRate (or0 (res_progress res)) (res_active res)),
         if truthy_str (res_live_preview res) \<and> gallery s then res_live_preview res else None))"

definition funLivePreview_done :: "session \<Rightarrow> xhr_result \<Rightarrow> (outcome \<times> string option) \<times> session"
  where
  "funLivePreview_done s r =
     (case r of
        Ok res \<Rightarrow> (funLivePreview_handler s res, s)
      | Failed \<Rightarrow> ((Terminated TransportError, None), removeProgressBar s))"

text \<open>\<^verbatim>\<open>appendChild\<close> moves a node that is already a child to the end.\<close>

definition appendChild :: "nat list \<Rightarrow> nat \<Rightarrow> nat list" where
  "appendChild kids n = filter (\<lambda>k. k \<noteq> n) kids @ [n]"

text \<open>The timers that \<^verbatim>\<open>img.onload\<close> sets: the fade-in of the new image after 10 ms, and the
  removal of an old image after 300 ms.\<close>

datatype preview_timer = FadeIn nat nat | Evict nat nat

definition img_onload :: "session \<Rightarrow> nat \<Rightarrow> session \<times> preview_timer list" where
  "img_onload s img =
     (let s1 = (if livePreview s = None
                then s\<lparr>livePreview := Some [], preview_in_gallery := True\<rparr> else s);
          kids = appendChild (case livePreview s1 of None \<Rightarrow> [] | Some ks \<Rightarrow> ks) img;
          s2 = s1\<lparr>livePreview := Some kids\<rparr>
      in (s2, FadeIn img 10 #
              (if length kids > 2
               then (case kids of [] \<Rightarrow> [] | oldImg # _ \<Rightarrow> [Evict oldImg 300])
               else [])))"

text \<open>The callback of the 300 ms timer: the old image is removed if it still has a parent.\<close>

definition evict_timeout :: "session \<Rightarrow> nat \<Rightarrow> session" where
  "evict_timeout s oldImg =
     (case livePreview s of
        None \<Rightarrow> s
      | Some kids \<Rightarrow>
          if oldImg \<in> set kids then s\<lparr>livePreview := Some (remove1 oldImg kids)\<rparr> else s)"

text \<open>The images in the preview container.\<close>

definition preview_images :: "session \<Rightarrow> nat list" where
  "preview_images s = (case livePreview s of None \<Rightarrow> [] | Some kids \<Rightarrow> kids)"

text \<open>\<^verbatim>\<open>requestProgress\<close> at time \<open>now\<close>: the variables are set up, the bar is inserted and
  the first cycle of each loop is started (\<open>None\<close> for the timeout is the default of 40).\<close>

definition requestProgress ::
  "int \<Rightarrow> bool \<Rightarrow> bool \<Rightarrow> real option \<Rightarrow> opts \<Rightarrow> bool \<Rightarrow> string \<Rightarrow> session" where
  "requestProgress now has_gallery has_callback timeout os supported page_title =
     funProgress
       \<lparr>dateStart = now,
        inactivityTimeout = (case timeout of None \<Rightarrow> 40 | Some t \<Rightarrow> t),
        wasEverActive = False,
        wakeLock = False,
        divProgress = True,
        livePreview = None,
        gallery = has_gallery,
        has_onProgress = has_callback,
        session_opts = os,
        wakeLock_supported = supported,
        bar_in_document = True,
        preview_in_gallery = False,
        document_title = page_title,
        originalAppTitle = page_title,
        divInner_width = 0,
        divInner_transparent = False,
        divInner_text = [],
        atEnd_calls = 0,
        onProgress_calls = 0\<rparr>"

section \<open>The intelligent thumbnail loader\<close>

text \<open>
  A card is a DOM element, known by its identity; what the loader reads and writes of it is
  kept in the document: its \<^verbatim>\<open>data-name\<close>, its images and whether it carries the loading
  indicator.
\<close>

type_synonym card = nat

record img =
  src :: string
  originalSrc :: "string option"
  lazyId :: "string option"
  lazyLoading :: bool
  in_preview :: bool
  card_image :: bool

record card_dom =
  data_name :: "string option"
  images :: "img list"
  has_indicator :: bool

text \<open>
  The fields of the class. \<open>observer\<close> is \<open>None\<close> until \<^verbatim>\<open>initialize\<close> creates the
  intersection observer, then the set of its observation targets (observing a target twice
  is observing it once). \<open>retry_timers\<close> lists the \<^verbatim>\<open>setTimeout\<close> calls of
  \<^verbatim>\<open>scheduleRetry\<close> so far, oldest first: the delay in milliseconds and the card.
\<close>

record loader =
  loadedImages :: "string set"
  loadingImages :: "string set"
  observedCards :: "card set"
  retryAttempts :: "string \<rightharpoonup> nat"
  observer :: "card set option"
  isProcessing :: bool
  maxRetries :: nat
  retryDelay :: nat
  document :: "card \<Rightarrow> card_dom"
  retry_timers :: "(nat \<times> card) list"

definition new_loader :: "(card \<Rightarrow> card_dom) \<Rightarrow> loader" where
  "new_loader d =
     \<lparr>loadedImages = {}, loadingImages = {}, observedCards = {}, retryAttempts = Map.empty,
      observer = None, isProcessing = False, maxRetries = 3, retryDelay = 1000, document = d, retry_timers = []\<rparr>"

text \<open>A call returns a value or throws (calling a method of \<^verbatim>\<open>null\<close>).\<close>

datatype 'a result = Returned 'a | Threw

text \<open>\<^verbatim>\<open>card.dataset.name || 'unnamed'\<close>: an absent and an empty name both give the default.\<close>

definition cardName :: "card_dom \<Rightarrow> string" where
  "cardName c = (case data_name c of None \<Rightarrow> ''unnamed''
                 | Some n \<Rightarrow> if n = [] then ''unnamed'' else n)"

fun str_includes :: "string \<Rightarrow> string \<Rightarrow> bool" where
  "str_includes [] p = (p = [])"
| "str_includes (c # cs) p = (take (length p) (c # cs) = p \<or> str_includes cs p)"

definition isThumbnail :: "img \<Rightarrow> bool" where
  "isThumbnail i =
     (src i \<noteq> [] \<and>
       (str_includes (src i) ''sd_extra_networks/thumb'' \<or> str_includes (src i) ''thumbnail''
        \<or> in_preview i \<or> card_image i))"

definition findThumbnailImages :: "card_dom \<Rightarrow> img list" where
  "findThumbnailImages c = filter isThumbnail (images c)"

definition getPlaceholderDataURL :: string where
  "getPlaceholderDataURL =
     ''data:image/svg+xml;base64,PHN2ZyB3aWR0aD0iMjAwIiBoZWlnaHQ9IjIwMCIgeG1sbnM9Imh0dHA6Ly93d3cudzMub3JnLzIwMDAvc3ZnIj48cmVjdCB3aWR0aD0iMTAwJSIgaGVpZ2h0PSIxMDAlIiBmaWxsPSIjZjVmNWY1Ii8+PHRleHQgeD0iNTAlIiB5PSI1MCUiIGZvbnQtZmFtaWx5PSJBcmlhbCIgZm9udC1zaXplPSIxMiIgZmlsbD0iIzk5OSIgdGV4dC1hbmNob3I9Im1pZGRsZSIgZHk9Ii4zZW0iPkxvYWRpbmcuLi48L3RleHQ+PC9zdmc+''"

definition prepareThumbnailForLazyLoading :: "img \<Rightarrow> card_dom \<Rightarrow> nat \<Rightarrow> img" where
  "prepareThumbnailForLazyLoading i c index =
     i\<lparr>originalSrc := (case originalSrc i of
                          None \<Rightarrow> Some (src i)
                        | Some u \<Rightarrow> if u = [] then Some (src i) else Some u),
       lazyId := Some (cardName c @ ''-'' @ digits index),
       src := getPlaceholderDataURL,
       lazyLoading := True\<rparr>"

text \<open>The \<^verbatim>\<open>forEach\<close> of \<^verbatim>\<open>processCard\<close> over the thumbnails found, in document order: the
  \<open>k\<close>-th thumbnail is prepared with index \<open>k\<close>, the other images are left alone.\<close>

fun prepare_thumbnails :: "card_dom \<Rightarrow> nat \<Rightarrow> img list \<Rightarrow> img list" where
  "prepare_thumbnails c k [] = []"
| "prepare_thumbnails c k (i # rest) =
     (if isThumbnail i
      then prepareThumbnailForLazyLoading i c k # prepare_thumbnails c (Suc k) rest
      else i # prepare_thumbnails c k rest)"

definition addLoadingIndicator :: "loader \<Rightarrow> card \<Rightarrow> loader" where
  "addLoadingIndicator s el =
     (if has_indicator (document s el) then s
      else s\<lparr>document := (document s)(el := (document s el)\<lparr>has_indicator := True\<rparr>)\<rparr>)"

definition removeLoadingIndicator :: "loader \<Rightarrow> card \<Rightarrow> loader" where
  "removeLoadingIndicator s el =
     (if has_indicator (document s el)
      then s\<lparr>document := (document s)(el := (document s el)\<lparr>has_indicator := False\<rparr>)\<rparr>
      else s)"

definition processCard :: "loader \<Rightarrow> card \<Rightarrow> bool result \<times> loader" where
  "processCard s el =
     (if el \<in> observedCards s then (Returned False, s)
      else
        let thumbnailImages = findThumbnailImages (document s el) in
        if length thumbnailImages = 0 then (Returned False, s)
        else
          let s1 = s\<lparr>observedCards := insert el (observedCards s)\<rparr>;
              s2 = s1\<lparr>document := (document s1)(el := (document s1 el)
                      \<lparr>images := prepare_thumbnails (document s1 el) 0 (images (document s1 el))\<rparr>)\<rparr>;
              s3 = addLoadingIndicator s2 el
          in case observer s3 of
               None \<Rightarrow> (Threw, s3)
             | Some targets \<Rightarrow> (Returned True, s3\<lparr>observer := Some (insert el targets)\<rparr>))"





definition retryCount :: "loader \<Rightarrow> string \<Rightarrow> nat" where
  "retryCount s name = (case retryAttempts s name of None \<Rightarrow> 0 | Some k \<Rightarrow> k)"

definition scheduleRetry :: "loader \<Rightarrow> card \<Rightarrow> loader" where
  "scheduleRetry s el =
     (let name = cardName (document s el);
          count = retryCount s name
      in if count < maxRetries s then
           s\<lparr>retryAttempts := (retryAttempts s)(name \<mapsto> count + 1),
             retry_timers := retry_timers s @ [(retryDelay s * (count + 1), el)]\<rparr>
         else removeLoadingIndicator s el)"

text \<open>The loads that \<^verbatim>\<open>loadCardThumbnails\<close> starts: for each image still marked for lazy
  loading that has an original address, its position among the card's images and the address.\<close>

definition loadPromises :: "card_dom \<Rightarrow> (nat \<times> string) list" where
  "loadPromises c =
     map (\<lambda>(k, i). (k, case originalSrc i of None \<Rightarrow> [] | Some u \<Rightarrow> u))
       (filter (\<lambda>(k, i). lazyLoading i \<and> originalSrc i \<noteq> None \<and> originalSrc i \<noteq> Some [])
          (zip [0..<length (images c)] (images c)))"

text \<open>
  \<^verbatim>\<open>loadCardThumbnails\<close> runs in two parts. The first runs up to the \<^verbatim>\<open>await\<close>: \<open>None\<close> is
  the early return, \<open>Some ps\<close> the loads started. The second runs once
  \<^verbatim>\<open>Promise.allSettled\<close> has the outcome of every load (\<open>True\<close> for a load that succeeded):
  that promise is fulfilled whatever the outcomes are, so they are not looked at. \<open>thrown\<close>
  says that a statement of the \<^verbatim>\<open>try\<close> block threw before the card was marked loaded,
  which is the only way into the \<^verbatim>\<open>catch\<close> block.
\<close>

definition loadCardThumbnails_start :: "loader \<Rightarrow> card \<Rightarrow> (nat \<times> string) list option \<times> loader"
  where
  "loadCardThumbnails_start s el =
     (let name = cardName (document s el) in
      if name \<in> loadedImages s \<or> name \<in> loadingImages s then (None, s)
      else (Some (loadPromises (document s el)),
            s\<lparr>loadingImages := insert name (loadingImages s)\<rparr>))"

definition loadCardThumbnails_settled :: "loader \<Rightarrow> card \<Rightarrow> bool list \<Rightarrow> bool \<Rightarrow> loader" where
  "loadCardThumbnails_settled s el outcomes thrown =
     (let name = cardName (document s el);
          s1 = (if thrown then scheduleRetry s el
                else removeLoadingIndicator (s\<lparr>loadedImages := insert name (loadedImages s)\<rparr>) el)
      in s1\<lparr>loadingImages := loadingImages s1 - {name}\<rparr>)"









section \<open>Example inputs\<close>

definition demo_opts :: opts where
  "demo_opts = \<lparr>show_progress_in_title = True, prevent_screen_sleep_during_generation = False\<rparr>"

definition demo_session :: session where
  "demo_session = requestProgress 0 True False None demo_opts False ''Forge''"

definition demo_response :: "bool \<Rightarrow> bool \<Rightarrow> real option \<Rightarrow> response" where
  "demo_response c a p =
     \<lparr>res_completed = c, res_active = a, res_queued = False, res_progress = p,
      res_eta = None, res_textinfo = None, res_live_preview = None\<rparr>"

definition demo_img :: img where
  "demo_img = \<lparr>src = ''/sd_extra_networks/thumb?f=a.png'', originalSrc = None, lazyId = None,
                lazyLoading = False, in_preview = False, card_image = False\<rparr>"

text \<open>Two cards (0 and 1) named \<^verbatim>\<open>lora-a\<close>, every other card unnamed; each has one thumbnail.\<close>

definition demo_document :: "card \<Rightarrow> card_dom" where
  "demo_document el =
     \<lparr>data_name = (if el < 2 then Some ''lora-a'' else None), images = [demo_img],
      has_indicator = False\<rparr>"

definition demo_loader :: loader where
  "demo_loader = (new_loader demo_document)\<lparr>observer := Some {}\<rparr>"

section \<open>Properties of progressbar.js\<close>

subsection \<open>Time and refresh rate\<close>

lemma length_digits_lt10: "n < 10 \<Longrightarrow> length (digits n) = 1"
  by (subst digits.simps) simp

lemma length_digits_lt100: "10 \<le> n \<Longrightarrow> n < 100 \<Longrightarrow> length (digits n) = 2"
  by (subst digits.simps) (simp add: length_digits_lt10)

lemma length_digits_ge10: "10 \<le> n \<Longrightarrow> 2 \<le> length (digits n)"
  by (subst digits.simps) (simp add: Suc_le_eq digits.simps)

lemma length_pad2_field: "0 \<le> x \<Longrightarrow> x < 100 \<Longrightarrow> length (pad2 x) = 2"
  by (cases "x < 10") (simp_all add: pad2_def num_str_def length_digits_lt10 length_digits_lt100)

lemma length_pad2_ge2: "0 \<le> x \<Longrightarrow> 2 \<le> length (pad2 x)"
  by (cases "x < 10") (simp_all add: pad2_def num_str_def length_digits_lt10 length_digits_ge10)

lemma js_rem_60: "0 \<le> a \<Longrightarrow> 0 \<le> js_rem a 60 \<and> js_rem a 60 < 100"
  by (simp add: js_rem_def)

text \<open>
  Claim C4, as amended. formatTime pads every field, the leading one too: above an hour the
  text is HH:MM:SS (two-digit minutes and seconds, hours of two digits or more), above a
  minute and up to an hour it is MM:SS, and otherwise the whole seconds followed by "s";
  formatTime(3661) is "01:01:01", formatTime(90) is "01:30" and formatTime(45) is "45s".
\<close>

theorem formatTime_forms:
  "(3600 < secs \<longrightarrow>
      (\<exists>h m s. formatTime secs = h @ '':'' @ m @ '':'' @ s
         \<and> h = pad2 \<lfloor>secs / 60 / 60\<rfloor> \<and> 2 \<le> length h
         \<and> m = pad2 (\<lfloor>secs / 60\<rfloor> mod 60) \<and> length m = 2
         \<and> s = pad2 (\<lfloor>secs\<rfloor> mod 60) \<and> length s = 2))
   \<and> (60 < secs \<and> secs \<le> 3600 \<longrightarrow>
      (\<exists>m s. formatTime secs = m @ '':'' @ s
         \<and> m = pad2 \<lfloor>secs / 60\<rfloor> \<and> length m = 2
         \<and> s = pad2 (\<lfloor>secs\<rfloor> mod 60) \<and> length s = 2))
   \<and> (secs \<le> 60 \<longrightarrow> formatTime secs = num_str \<lfloor>secs\<rfloor> @ ''s'')
   \<and> formatTime 3661 = ''01:01:01'' \<and> formatTime 90 = ''01:30'' \<and> formatTime 45 = ''45s''"
proof -
  have hours: "3600 < secs \<Longrightarrow> 0 \<le> \<lfloor>secs / 60 / 60\<rfloor>" by simp
  have mins: "60 < secs \<Longrightarrow> 0 \<le> \<lfloor>secs / 60\<rfloor>" by simp
  have secs0: "60 < secs \<Longrightarrow> 0 \<le> \<lfloor>secs\<rfloor>" by simp
  have mins_small: "60 < secs \<Longrightarrow> secs \<le> 3600 \<Longrightarrow> \<lfloor>secs / 60\<rfloor> < 100"
    by (simp add: floor_less_iff)
  have A: "3600 < secs \<Longrightarrow> formatTime secs =
      pad2 \<lfloor>secs / 60 / 60\<rfloor> @ '':'' @ pad2 (\<lfloor>secs / 60\<rfloor> mod 60) @ '':'' @ pad2 (\<lfloor>secs\<rfloor> mod 60)"
    using mins secs0 by (simp add: formatTime_def js_rem_def)
  have B: "60 < secs \<Longrightarrow> secs \<le> 3600 \<Longrightarrow> formatTime secs =
      pad2 \<lfloor>secs / 60\<rfloor> @ '':'' @ pad2 (\<lfloor>secs\<rfloor> mod 60)"
    using secs0 by (simp add: formatTime_def js_rem_def)
  have C: "secs \<le> 60 \<Longrightarrow> formatTime secs = num_str \<lfloor>secs\<rfloor> @ ''s''"
    by (simp add: formatTime_def)
  have D: "formatTime 3661 = ''01:01:01''" "formatTime 90 = ''01:30''" "formatTime 45 = ''45s''"
    by (simp_all add: formatTime_def pad2_def num_str_def js_rem_def digits.simps)
  show ?thesis
    using A B C D hours mins_small mins
    by (simp add: length_pad2_field length_pad2_ge2)
qed

text \<open>
  Claim C4, witness: 7325 seconds and 59.5 seconds.
\<close>

theorem formatTime_forms_witness:
  "formatTime 7325 = ''02:02:05'' \<and> length (pad2 (\<lfloor>7325 / 60 :: real\<rfloor> mod 60)) = 2
     \<and> formatTime 59.5 = ''59s''"
  using formatTime_forms [of 7325] formatTime_forms [of "59.5"]
  by (simp add: pad2_def num_str_def digits.simps)

text \<open>
  Claim C4 as stated fails: the results for 3661 and 90 seconds are not the unpadded
  "1:01:01" and "1:30".
\<close>

theorem formatTime_unpadded_counterexample:
  "formatTime 3661 \<noteq> ''1:01:01'' \<and> formatTime 90 \<noteq> ''1:30''"
  by (simp add: formatTime_def pad2_def num_str_def js_rem_def digits.simps)

text \<open>
  Claim C5. For a progress value p in [0,1] and an active flag a, getSmartRefreshRate
  returns 1000 when a is false or p < 0.05, 800 for 0.05 \<le> p < 0.2, 400 for 0.2 \<le> p < 0.7,
  250 for 0.7 \<le> p < 0.95 and 200 for p \<ge> 0.95; for an active task the delay never grows
  with the progress, and it is the minimum 200 from 0.95 on.
\<close>

theorem getSmartRefreshRate_table:
  assumes "0 \<le> p" and "p \<le> 1"
  shows "(\<not> a \<or> p < 0.05 \<longrightarrow> getSmartRefreshRate p a = 1000)
       \<and> (a \<and> 0.05 \<le> p \<and> p < 0.2 \<longrightarrow> getSmartRefreshRate p a = 800)
       \<and> (a \<and> 0.2 \<le> p \<and> p < 0.7 \<longrightarrow> getSmartRefreshRate p a = 400)
       \<and> (a \<and> 0.7 \<le> p \<and> p < 0.95 \<longrightarrow> getSmartRefreshRate p a = 250)
       \<and> (a \<and> 0.95 \<le> p \<longrightarrow> getSmartRefreshRate p a = 200)
       \<and> (\<forall>q. p \<le> q \<longrightarrow> getSmartRefreshRate q True \<le> getSmartRefreshRate p True)
       \<and> (\<forall>q. 0.95 \<le> q \<longrightarrow> getSmartRefreshRate q True = 200)
       \<and> 200 \<le> getSmartRefreshRate p a"
  by (auto simp add: getSmartRefreshRate_def)

text \<open>
  Claim C5, witness: progress 0.5, active and not active.
\<close>

theorem getSmartRefreshRate_table_witness:
  "getSmartRefreshRate 0.5 True = 400 \<and> getSmartRefreshRate 0.8 True \<le> getSmartRefreshRate 0.5 True
     \<and> getSmartRefreshRate 0.5 False = 1000"
  using getSmartRefreshRate_table [of "0.5" True] getSmartRefreshRate_table [of "0.5" False]
  by simp

subsection \<open>The progress loop\<close>

lemma removeProgressBar_divProgress: "\<not> divProgress (removeProgressBar s)"
  by (simp add: removeProgressBar_def releaseWakeLock_def setTitle_def Let_def)

lemma removeProgressBar_cleanup:
  "divProgress s \<Longrightarrow>
     atEnd_calls (removeProgressBar s) = Suc (atEnd_calls s)
     \<and> \<not> bar_in_document (removeProgressBar s)"
  by (simp add: removeProgressBar_def releaseWakeLock_def setTitle_def Let_def)

lemma setTitle_fields:
  "divProgress (setTitle t s) = divProgress s"
  "atEnd_calls (setTitle t s) = atEnd_calls s"
  "wasEverActive (setTitle t s) = wasEverActive s"
  "dateStart (setTitle t s) = dateStart s"
  "inactivityTimeout (setTitle t s) = inactivityTimeout s"
  by (simp_all add: setTitle_def Let_def)

text \<open>
  Claim C1. When a response has active = false and no completed flag, and the ever-active
  flag of the session is set, the progress handler ends the session: removeProgressBar runs
  (the bar is gone and atEnd is called, if that had not happened before) and no further
  poll is scheduled. The flag is set by every response with active = true that is not
  completed, and a handler that reschedules leaves it set.
\<close>

theorem funProgress_drop_from_active:
  assumes "\<not> res_completed res" and "\<not> res_active res" and "wasEverActive s"
  shows "fst (funProgress_handler s now res) = Terminated DroppedFromActive
       \<and> \<not> divProgress (snd (funProgress_handler s now res))
       \<and> (divProgress s \<longrightarrow>
            atEnd_calls (snd (funProgress_handler s now res)) = Suc (atEnd_calls s)
            \<and> \<not> bar_in_document (snd (funProgress_handler s now res)))
       \<and> (\<forall>s0 t r. res_active r \<and> \<not> res_completed r \<longrightarrow>
            wasEverActive (snd (funProgress_handler s0 t r)))
       \<and> (\<forall>t r. \<forall>d. fst (funProgress_handler s t r) = Rescheduled d \<longrightarrow>
            wasEverActive (snd (funProgress_handler s t r)))"
proof -
  let ?s3 = "(setTitle (titleText res)
                (s\<lparr>divInner_width := or0 (res_progress res) * 100,
                   divInner_transparent := \<not> truthy_num (res_progress res)\<rparr>))
              \<lparr>divInner_text := barText res\<rparr>"
  have run: "funProgress_handler s now res = (Terminated DroppedFromActive, removeProgressBar ?s3)"
    using assms by (simp add: funProgress_handler_def Let_def setTitle_fields)
  have live: "divProgress ?s3 = divProgress s" "atEnd_calls ?s3 = atEnd_calls s"
    by (simp_all add: setTitle_fields)
  have sets: "\<And>s0 t r. res_active r \<Longrightarrow> \<not> res_completed r \<Longrightarrow>
      wasEverActive (snd (funProgress_handler s0 t r))"
    by (simp add: funProgress_handler_def Let_def setTitle_fields)
  have keeps: "\<And>t r d. fst (funProgress_handler s t r) = Rescheduled d \<Longrightarrow>
      wasEverActive (snd (funProgress_handler s t r))"
    using assms(3)
    by (simp add: funProgress_handler_def Let_def setTitle_fields split: if_splits)
  show ?thesis
    using run live sets keeps removeProgressBar_divProgress [of ?s3] removeProgressBar_cleanup [of ?s3]
    by simp
qed

text \<open>
  Claim C1, witness: a response with active = true and progress 0.5, then a response with
  active = false.
\<close>

theorem funProgress_drop_from_active_witness:
  "fst (funProgress_handler demo_session 1000 (demo_response False True (Some 0.5))) = Rescheduled 400
   \<and> fst (funProgress_handler
            (snd (funProgress_handler demo_session 1000 (demo_response False True (Some 0.5))))
            1400 (demo_response False False None)) = Terminated DroppedFromActive
   \<and> atEnd_calls (snd (funProgress_handler
            (snd (funProgress_handler demo_session 1000 (demo_response False True (Some 0.5))))
            1400 (demo_response False False None))) = 1"
proof -
  let ?s1 = "snd (funProgress_handler demo_session 1000 (demo_response False True (Some 0.5)))"
  have first: "fst (funProgress_handler demo_session 1000 (demo_response False True (Some 0.5)))
      = Rescheduled 400"
    by (simp add: funProgress_handler_def Let_def setTitle_fields demo_response_def
        getSmartRefreshRate_def or0_def)
  have flag: "wasEverActive ?s1" and alive: "divProgress ?s1" and calls: "atEnd_calls ?s1 = 0"
    by (simp_all add: funProgress_handler_def Let_def setTitle_fields demo_response_def
        demo_session_def requestProgress_def funProgress_def requestWakeLock_def demo_opts_def)
  have r: "\<not> res_completed (demo_response False False None)"
      "\<not> res_active (demo_response False False None)"
    by (simp_all add: demo_response_def)
  show ?thesis
    using funProgress_drop_from_active [OF r flag, of 1400] first alive calls by simp
qed

text \<open>
  Claim C6, as amended. When the session was never active, the response is neither
  completed nor active nor queued, and it is handled more than inactivityTimeout seconds
  after the start of the session, the handler ends the session through the inactivity
  branch: removeProgressBar runs and no further poll is scheduled.
\<close>

theorem funProgress_inactivity_timeout:
  assumes "\<not> res_completed res" and "\<not> res_active res" and "\<not> res_queued res"
    and "\<not> wasEverActive s"
    and "real_of_int (now - dateStart s) / 1000 > inactivityTimeout s"
  shows "fst (funProgress_handler s now res) = Terminated TimedOut
       \<and> \<not> divProgress (snd (funProgress_handler s now res))
       \<and> (divProgress s \<longrightarrow>
            atEnd_calls (snd (funProgress_handler s now res)) = Suc (atEnd_calls s)
            \<and> \<not> bar_in_document (snd (funProgress_handler s now res)))"
proof -
  let ?s3 = "(setTitle (titleText res)
                (s\<lparr>divInner_width := or0 (res_progress res) * 100,
                   divInner_transparent := \<not> truthy_num (res_progress res)\<rparr>))
              \<lparr>divInner_text := barText res\<rparr>"
  have run: "funProgress_handler s now res = (Terminated TimedOut, removeProgressBar ?s3)"
    using assms by (simp add: funProgress_handler_def Let_def setTitle_fields)
  have live: "divProgress ?s3 = divProgress s" "atEnd_calls ?s3 = atEnd_calls s"
    by (simp_all add: setTitle_fields)
  show ?thesis
    using run live removeProgressBar_divProgress [of ?s3] removeProgressBar_cleanup [of ?s3]
    by simp
qed

text \<open>
  Claim C6, witness: the default timeout of 40 seconds, a response at 41 seconds; at 40
  seconds the handler still reschedules.
\<close>

theorem funProgress_inactivity_timeout_witness:
  "inactivityTimeout demo_session = 40
   \<and> fst (funProgress_handler demo_session 41000 (demo_response False False None))
       = Terminated TimedOut
   \<and> atEnd_calls (snd (funProgress_handler demo_session 41000 (demo_response False False None))) = 1
   \<and> fst (funProgress_handler demo_session 40000 (demo_response False False None))
       = Rescheduled 1000"
proof -
  have s: "inactivityTimeout demo_session = 40" "dateStart demo_session = 0"
      "\<not> wasEverActive demo_session" "divProgress demo_session" "atEnd_calls demo_session = 0"
    by (simp_all add: demo_session_def requestProgress_def funProgress_def requestWakeLock_def
        demo_opts_def)
  have r: "\<not> res_completed (demo_response False False None)"
      "\<not> res_active (demo_response False False None)"
      "\<not> res_queued (demo_response False False None)"
    by (simp_all add: demo_response_def)
  have late: "real_of_int (41000 - dateStart demo_session) / 1000 > inactivityTimeout demo_session"
    using s by simp
  have early: "fst (funProgress_handler demo_session 40000 (demo_response False False None))
       = Rescheduled 1000"
    using s r by (simp add: funProgress_handler_def Let_def setTitle_fields getSmartRefreshRate_def)
  show ?thesis
    using funProgress_inactivity_timeout [OF r s(3) late] s early by simp
qed

text \<open>
  Claim C6 as stated fails: a response that signals completed, handled at 41 seconds in a
  session that was never active nor queued, ends the session through the completion branch.
\<close>

theorem funProgress_completed_after_timeout_counterexample:
  "\<not> wasEverActive demo_session
   \<and> \<not> res_active (demo_response True False None)
   \<and> \<not> res_queued (demo_response True False None)
   \<and> real_of_int (41000 - dateStart demo_session) / 1000 > 40
   \<and> inactivityTimeout demo_session = 40
   \<and> fst (funProgress_handler demo_session 41000 (demo_response True False None))
       = Terminated Completed
   \<and> fst (funProgress_handler demo_session 41000 (demo_response True False None))
       \<noteq> Terminated TimedOut"
  by (simp add: funProgress_handler_def demo_response_def
        demo_session_def requestProgress_def funProgress_def requestWakeLock_def demo_opts_def)

text \<open>
  Claim C7, on the code: after a transport error of the live-preview loop has run
  removeProgressBar (divProgress is null, atEnd was called), the progress handler still
  schedules its next poll on a response of an active task; the live-preview handler, which
  checks divProgress first, does not.
\<close>

theorem funProgress_polls_after_termination:
  "fst (fst (funLivePreview_done demo_session Failed)) = Terminated TransportError
   \<and> \<not> divProgress (snd (funLivePreview_done demo_session Failed))
   \<and> atEnd_calls (snd (funLivePreview_done demo_session Failed)) = 1
   \<and> fst (funProgress_done (snd (funLivePreview_done demo_session Failed)) 500
            (Ok (demo_response False True (Some 0.5)))) = Rescheduled 400
   \<and> fst (funLivePreview_handler (snd (funLivePreview_done demo_session Failed))
            (demo_response False True (Some 0.5))) = Ignored"
  by (simp add: funLivePreview_done_def funProgress_done_def funProgress_handler_def Let_def
        funLivePreview_handler_def
        removeProgressBar_def releaseWakeLock_def setTitle_def getSmartRefreshRate_def or0_def
        demo_response_def demo_session_def requestProgress_def funProgress_def
        requestWakeLock_def demo_opts_def)

subsection \<open>The live preview\<close>

lemma appendChild_fresh: "n \<notin> set kids \<Longrightarrow> appendChild kids n = kids @ [n]"
  by (induction kids) (auto simp add: appendChild_def)

lemma preview_images_onload:
  "img \<notin> set (preview_images s) \<Longrightarrow>
     preview_images (fst (img_onload s img)) = preview_images s @ [img]"
  by (cases "livePreview s")
     (simp_all add: img_onload_def preview_images_def appendChild_fresh Let_def)

text \<open>
  Claim C8, as amended. When an image loads into a preview container that holds at most 2
  images, it is appended, so that at most 3 images are present; with 2 images before, the
  oldest one is scheduled for removal 300 ms later, and once that timer has run the
  container holds the 2 newest images. With fewer than 2 images before, nothing is removed.
\<close>

theorem live_preview_eviction:
  assumes "length (preview_images s) \<le> 2" and "img \<notin> set (preview_images s)"
  shows "preview_images (fst (img_onload s img)) = preview_images s @ [img]
       \<and> length (preview_images (fst (img_onload s img))) \<le> 3
       \<and> (length (preview_images s) < 2 \<longrightarrow> snd (img_onload s img) = [FadeIn img 10])
       \<and> (length (preview_images s) = 2 \<longrightarrow>
            (\<exists>oldest newer.
               preview_images s = [oldest, newer]
               \<and> snd (img_onload s img) = [FadeIn img 10, Evict oldest 300]
               \<and> preview_images (evict_timeout (fst (img_onload s img)) oldest) = [newer, img]))"
proof -
  have app: "preview_images (fst (img_onload s img)) = preview_images s @ [img]"
    using assms(2) by (rule preview_images_onload)
  have few: "length (preview_images s) < 2 \<Longrightarrow> snd (img_onload s img) = [FadeIn img 10]"
    using assms(2)
    by (cases "livePreview s")
       (simp_all add: img_onload_def preview_images_def appendChild_fresh Let_def)
  have full: "\<exists>oldest newer.
               preview_images s = [oldest, newer]
               \<and> snd (img_onload s img) = [FadeIn img 10, Evict oldest 300]
               \<and> preview_images (evict_timeout (fst (img_onload s img)) oldest) = [newer, img]"
    if two: "length (preview_images s) = 2"
  proof -
    from two obtain a b where ab: "preview_images s = [a, b]"
      by (cases "preview_images s" rule: list.exhaust)
         (auto simp add: length_Suc_conv Suc_length_conv numeral_2_eq_2)
    then obtain kids: "livePreview s = Some [a, b]"
      by (cases "livePreview s") (simp_all add: preview_images_def)
    from assms(2) ab have fresh: "a \<noteq> img" "b \<noteq> img" by auto
    have t: "snd (img_onload s img) = [FadeIn img 10, Evict a 300]"
      using kids fresh by (simp add: img_onload_def appendChild_def Let_def)
    have e: "preview_images (evict_timeout (fst (img_onload s img)) a) = [b, img]"
      using kids fresh
      by (simp add: img_onload_def appendChild_def Let_def evict_timeout_def preview_images_def)
    from ab t e show ?thesis by blast
  qed
  from app assms(1) few full show ?thesis by simp
qed

text \<open>
  Claim C8, witness: three successive preview images.
\<close>

theorem live_preview_eviction_witness:
  "preview_images (fst (img_onload (fst (img_onload demo_session 1)) 2)) = [1, 2]
   \<and> snd (img_onload (fst (img_onload (fst (img_onload demo_session 1)) 2)) 3)
       = [FadeIn 3 10, Evict 1 300]
   \<and> preview_images (evict_timeout
        (fst (img_onload (fst (img_onload (fst (img_onload demo_session 1)) 2)) 3)) 1) = [2, 3]"
proof -
  let ?s2 = "fst (img_onload (fst (img_onload demo_session 1)) 2)"
  have two: "preview_images ?s2 = [1, 2]"
    by (simp add: img_onload_def appendChild_def Let_def preview_images_def demo_session_def
        requestProgress_def funProgress_def requestWakeLock_def)
  have pre: "length (preview_images ?s2) \<le> 2" "3 \<notin> set (preview_images ?s2)"
    using two by simp_all
  show ?thesis
    using live_preview_eviction [OF pre] two by simp
qed

text \<open>
  Claim C8 as stated fails: right after the third image has loaded, 3 images are in the
  preview container.
\<close>

theorem live_preview_three_images_counterexample:
  "preview_images
     (fst (img_onload (fst (img_onload (fst (img_onload demo_session 1)) 2)) 3)) = [1, 2, 3]
   \<and> \<not> length (preview_images
       (fst (img_onload (fst (img_onload (fst (img_onload demo_session 1)) 2)) 3))) \<le> 2"
  by (simp add: img_onload_def appendChild_def Let_def preview_images_def demo_session_def
        requestProgress_def funProgress_def requestWakeLock_def)

section \<open>Properties of the thumbnail loader\<close>

subsection \<open>Names never change\<close>

lemma cardName_has_indicator [simp]: "cardName (c\<lparr>has_indicator := b\<rparr>) = cardName c"
  by (simp add: cardName_def)

lemma cardName_images [simp]: "cardName (c\<lparr>images := xs\<rparr>) = cardName c"
  by (simp add: cardName_def)

lemma removeLoadingIndicator_fields [simp]:
  "cardName (document (removeLoadingIndicator s el) x) = cardName (document s x)"
  "data_name (document (removeLoadingIndicator s el) x) = data_name (document s x)"
  "retryAttempts (removeLoadingIndicator s el) = retryAttempts s"
  "retry_timers (removeLoadingIndicator s el) = retry_timers s"
  "maxRetries (removeLoadingIndicator s el) = maxRetries s"
  "retryDelay (removeLoadingIndicator s el) = retryDelay s"
  "loadedImages (removeLoadingIndicator s el) = loadedImages s"
  "loadingImages (removeLoadingIndicator s el) = loadingImages s"
  by (simp_all add: removeLoadingIndicator_def)

lemma addLoadingIndicator_fields [simp]:
  "cardName (document (addLoadingIndicator s el) x) = cardName (document s x)"
  "retryAttempts (addLoadingIndicator s el) = retryAttempts s"
  "retry_timers (addLoadingIndicator s el) = retry_timers s"
  "maxRetries (addLoadingIndicator s el) = maxRetries s"
  "retryDelay (addLoadingIndicator s el) = retryDelay s"
  "observedCards (addLoadingIndicator s el) = observedCards s"
  "observer (addLoadingIndicator s el) = observer s"
  by (simp_all add: addLoadingIndicator_def)







subsection \<open>The retry budget\<close>





















subsection \<open>Registration and loading\<close>

lemma demo_thumb: "isThumbnail demo_img"
  by (simp add: isThumbnail_def demo_img_def)

lemma demo_processCard:
  "processCard demo_loader 0 =
     (Returned True,
      demo_loader\<lparr>observedCards := {0},
        document := demo_document(0 := \<lparr>data_name = Some ''lora-a'',
           images = [prepareThumbnailForLazyLoading demo_img (demo_document 0) 0],
           has_indicator = True\<rparr>),
        observer := Some {0}\<rparr>)"
  by (simp add: processCard_def Let_def demo_loader_def new_loader_def findThumbnailImages_def
      demo_document_def demo_thumb addLoadingIndicator_def)

text \<open>
  Claim C2, on the code: a tracked card whose only image fails to load is marked loaded
  all the same, its indicator is removed, and no retry is scheduled or counted.
\<close>

theorem failed_loads_marked_loaded:
  "fst (processCard demo_loader 0) = Returned True
   \<and> has_indicator (document (snd (processCard demo_loader 0)) 0)
   \<and> fst (loadCardThumbnails_start (snd (processCard demo_loader 0)) 0)
       = Some [(0, ''/sd_extra_networks/thumb?f=a.png'')]
   \<and> ''lora-a'' \<in> loadedImages
        (loadCardThumbnails_settled
           (snd (loadCardThumbnails_start (snd (processCard demo_loader 0)) 0)) 0 [False] False)
   \<and> \<not> has_indicator (document
        (loadCardThumbnails_settled
           (snd (loadCardThumbnails_start (snd (processCard demo_loader 0)) 0)) 0 [False] False) 0)
   \<and> retry_timers
        (loadCardThumbnails_settled
           (snd (loadCardThumbnails_start (snd (processCard demo_loader 0)) 0)) 0 [False] False)
       = []
   \<and> retryAttempts
        (loadCardThumbnails_settled
           (snd (loadCardThumbnails_start (snd (processCard demo_loader 0)) 0)) 0 [False] False)
        ''lora-a'' = None"
  unfolding demo_processCard
  by (simp add: loadCardThumbnails_start_def loadCardThumbnails_settled_def
      Let_def cardName_def loadPromises_def prepareThumbnailForLazyLoading_def demo_img_def
      removeLoadingIndicator_def demo_loader_def new_loader_def)

text \<open>
  Claim C9. A successful call of processCard on a card that was not tracked adds it, and
  only it, to observedCards and to the targets of the intersection observer; a second call
  on the card returns false and changes nothing, as does any call on a tracked card.
\<close>

theorem processCard_idempotent:
  assumes "fst (processCard s el) = Returned True"
  shows "el \<notin> observedCards s
       \<and> observedCards (snd (processCard s el)) = insert el (observedCards s)
       \<and> (finite (observedCards s) \<longrightarrow>
            card (observedCards (snd (processCard s el))) = Suc (card (observedCards s)))
       \<and> (\<exists>targets. observer s = Some targets
            \<and> observer (snd (processCard s el)) = Some (insert el targets))
       \<and> processCard (snd (processCard s el)) el = (Returned False, snd (processCard s el))
       \<and> (\<forall>s'. el \<in> observedCards s' \<longrightarrow> processCard s' el = (Returned False, s'))"
proof -
  have again: "\<And>s'. el \<in> observedCards s' \<Longrightarrow> processCard s' el = (Returned False, s')"
    by (simp add: processCard_def)
  from assms have new: "el \<notin> observedCards s"
    by (auto simp add: processCard_def)
  from assms new have tracked:
      "observedCards (snd (processCard s el)) = insert el (observedCards s)"
    by (simp add: processCard_def Let_def split: if_splits option.splits)
  from assms new obtain targets where obs: "observer s = Some targets"
    by (cases "observer s") (simp_all add: processCard_def Let_def split: if_splits)
  from assms new obs have obs': "observer (snd (processCard s el)) = Some (insert el targets)"
    by (simp add: processCard_def Let_def split: if_splits)
  from tracked have "el \<in> observedCards (snd (processCard s el))" by simp
  then have second: "processCard (snd (processCard s el)) el
      = (Returned False, snd (processCard s el))"
    by (rule again)
  from new tracked obs obs' second again show ?thesis by simp
qed

text \<open>
  Claim C9, witness: the first card of the example document.
\<close>

theorem processCard_idempotent_witness:
  "fst (processCard demo_loader 0) = Returned True
   \<and> observedCards (snd (processCard demo_loader 0)) = {0}
   \<and> observer (snd (processCard demo_loader 0)) = Some {0}
   \<and> processCard (snd (processCard demo_loader 0)) 0
       = (Returned False, snd (processCard demo_loader 0))"
proof -
  have first: "fst (processCard demo_loader 0) = Returned True"
    by (simp add: demo_processCard)
  have before: "observedCards demo_loader = {}" "observer demo_loader = Some {}"
    by (simp_all add: demo_loader_def new_loader_def)
  show ?thesis
    using processCard_idempotent [OF first] first before by simp
qed

text \<open>
  Claim C10. Load, loading and retry state go by the card's data-name: a card with a
  non-empty data-name has that name as its key, a card without data-name has the key
  'unnamed'. For two cards with the same data-name n: once n is in loadedImages or in
  loadingImages, loadCardThumbnails on the other card returns at once and changes nothing
  (no load is started, its indicator stays); a load of one card that starts puts n into
  loadingImages and one that settles puts n into loadedImages, and either stops the other
  card; a retry scheduled for one card is recorded under n and counts for the other. Two
  cards without data-name stop each other in the same way, under 'unnamed'.
\<close>

theorem loadCardThumbnails_keyed_by_name:
  assumes "data_name (document s a) = Some n" and "data_name (document s b) = Some n"
    and "n \<noteq> []"
  shows "cardName (document s a) = n \<and> cardName (document s b) = n
       \<and> (n \<in> loadedImages s \<or> n \<in> loadingImages s \<longrightarrow>
            loadCardThumbnails_start s b = (None, s))
       \<and> (n \<notin> loadedImages s \<and> n \<notin> loadingImages s \<longrightarrow>
            fst (loadCardThumbnails_start s a) = Some (loadPromises (document s a))
            \<and> loadingImages (snd (loadCardThumbnails_start s a)) = insert n (loadingImages s)
            \<and> loadCardThumbnails_start (snd (loadCardThumbnails_start s a)) b
                = (None, snd (loadCardThumbnails_start s a)))
       \<and> loadedImages (loadCardThumbnails_settled s a outcomes False)
            = insert n (loadedImages s)
       \<and> loadCardThumbnails_start (loadCardThumbnails_settled s a outcomes False) b
            = (None, loadCardThumbnails_settled s a outcomes False)
       \<and> (retryCount s n < maxRetries s \<longrightarrow>
            retryAttempts (scheduleRetry s a) = (retryAttempts s)(n \<mapsto> Suc (retryCount s n))
            \<and> retryCount (scheduleRetry s a) (cardName (document (scheduleRetry s a) b))
                = Suc (retryCount s (cardName (document s b))))
       \<and> (\<forall>c. data_name c = None \<longrightarrow> cardName c = ''unnamed'')
       \<and> (\<forall>s' x y. data_name (document s' x) = None \<and> data_name (document s' y) = None
            \<and> (cardName (document s' x) \<in> loadedImages s'
                 \<or> cardName (document s' x) \<in> loadingImages s') \<longrightarrow>
            cardName (document s' x) = ''unnamed''
            \<and> loadCardThumbnails_start s' y = (None, s'))"
proof -
  from assms have key: "cardName (document s a) = n" "cardName (document s b) = n"
    by (simp_all add: cardName_def)
  have busy: "n \<in> loadedImages s \<or> n \<in> loadingImages s \<Longrightarrow>
      loadCardThumbnails_start s b = (None, s)"
    using key by (auto simp add: loadCardThumbnails_start_def Let_def)
  have start: "fst (loadCardThumbnails_start s a) = Some (loadPromises (document s a))
      \<and> loadingImages (snd (loadCardThumbnails_start s a)) = insert n (loadingImages s)
      \<and> loadCardThumbnails_start (snd (loadCardThumbnails_start s a)) b
          = (None, snd (loadCardThumbnails_start s a))"
    if "n \<notin> loadedImages s" "n \<notin> loadingImages s"
    using key that by (simp add: loadCardThumbnails_start_def Let_def)
  have key': "cardName (document (loadCardThumbnails_settled s a outcomes False) b) = n"
    using key by (simp add: loadCardThumbnails_settled_def Let_def)
  have loaded: "loadedImages (loadCardThumbnails_settled s a outcomes False)
      = insert n (loadedImages s)"
    using key by (simp add: loadCardThumbnails_settled_def Let_def)
  have after: "loadCardThumbnails_start (loadCardThumbnails_settled s a outcomes False) b
      = (None, loadCardThumbnails_settled s a outcomes False)"
    using key' loaded by (simp add: loadCardThumbnails_start_def Let_def)
  have retry: "retryAttempts (scheduleRetry s a) = (retryAttempts s)(n \<mapsto> Suc (retryCount s n))
      \<and> retryCount (scheduleRetry s a) (cardName (document (scheduleRetry s a) b))
          = Suc (retryCount s (cardName (document s b)))"
    if "retryCount s n < maxRetries s"
    using key that by (simp add: scheduleRetry_def Let_def retryCount_def)
  have unnamed: "data_name c = None \<Longrightarrow> cardName c = ''unnamed''" for c
    by (simp add: cardName_def)
  have shared: "cardName (document s' x) = ''unnamed'' \<and> loadCardThumbnails_start s' y = (None, s')"
    if "data_name (document s' x) = None" "data_name (document s' y) = None"
      "cardName (document s' x) \<in> loadedImages s' \<or> cardName (document s' x) \<in> loadingImages s'"
    for s' x y
    using that unnamed [of "document s' x"] unnamed [of "document s' y"]
    by (auto simp add: loadCardThumbnails_start_def Let_def)
  from key busy start loaded after retry unnamed shared show ?thesis
    by blast
qed

text \<open>
  Claim C10, witness: the two cards named lora-a of the example document, and two unnamed
  cards.
\<close>

theorem loadCardThumbnails_keyed_by_name_witness:
  "cardName (document demo_loader 0) = ''lora-a'' \<and> cardName (document demo_loader 1) = ''lora-a''
   \<and> fst (loadCardThumbnails_start demo_loader 0) = Some (loadPromises (demo_document 0))
   \<and> loadCardThumbnails_start (snd (loadCardThumbnails_start demo_loader 0)) 1
       = (None, snd (loadCardThumbnails_start demo_loader 0))
   \<and> loadCardThumbnails_start (loadCardThumbnails_settled demo_loader 0 [True] False) 1
       = (None, loadCardThumbnails_settled demo_loader 0 [True] False)
   \<and> retryCount (scheduleRetry demo_loader 0)
        (cardName (document (scheduleRetry demo_loader 0) 1)) = 1
   \<and> cardName (demo_document 2) = ''unnamed'' \<and> cardName (demo_document 3) = ''unnamed''"
proof -
  have a: "data_name (document demo_loader 0) = Some ''lora-a''"
    and b: "data_name (document demo_loader 1) = Some ''lora-a''"
    by (simp_all add: demo_loader_def new_loader_def demo_document_def)
  have n: "''lora-a'' \<noteq> []" by simp
  have idle: "''lora-a'' \<notin> loadedImages demo_loader" "''lora-a'' \<notin> loadingImages demo_loader"
      "retryCount demo_loader ''lora-a'' = 0" "maxRetries demo_loader = 3"
      "document demo_loader = demo_document"
    by (simp_all add: demo_loader_def new_loader_def retryCount_def)
  have unnamed: "data_name (demo_document 2) = None" "data_name (demo_document 3) = None"
    by (simp_all add: demo_document_def)
  show ?thesis
    using loadCardThumbnails_keyed_by_name [OF a b n, of "[True]"] idle unnamed by simp
qed

end
